theory Spec2Isabelle
  imports Complex_Main "HOL-Library.Product_Lexorder" "HOL-Library.List_Lexorder"
    "HOL-Library.Char_ord" "HOL-Library.Multiset"
begin

section \<open>Data model\<close>

text \<open>
  A calendar date is the triple (year, month, day); the chronological order of dates is
  the lexicographic order of the triples, which is also the order of the stored text
  \<^verbatim>\<open>YYYY-MM-DD\<close>.
\<close>

type_synonym date = "int \<times> int \<times> int"

text \<open>
  The provider's table (a pandas DataFrame in wide form): a date index and one named
  column of values per search term, plus possibly the marker column \<^verbatim>\<open>isPartial\<close>.
  Python integers are unbounded, so cells are \<^typ>\<open>int\<close>.
\<close>

record dataframe =
  df_index :: "date list"
  df_columns :: "(string \<times> int list) list"

definition df_empty :: "dataframe \<Rightarrow> bool" where
  \<comment> \<open>\<^verbatim>\<open>df.empty\<close>: some axis has length 0\<close>
  "df_empty df = (df_index df = [] \<or> df_columns df = [])"

definition drop_isPartial :: "dataframe \<Rightarrow> dataframe" where
  \<comment> \<open>\<^verbatim>\<open>if 'isPartial' in df.columns: df = df.drop(columns=['isPartial'])\<close>\<close>
  "drop_isPartial df =
     (if ''isPartial'' \<in> set (map fst (df_columns df))
      then df\<lparr>df_columns := filter (\<lambda>c. fst c \<noteq> ''isPartial'') (df_columns df)\<rparr>
      else df)"

section \<open>Effects: exceptions, printed messages, the trace of a run\<close>

datatype py_error = ValueError | OverflowError | OperationalError | FatalError string

datatype msg =
    Msg_retry int
  | Msg_erro_busca string
  | Msg_erro_inesperado string
  | Msg_banco_pronto string
  | Msg_salvos nat string
  | Msg_erro_salvar string py_error
  | Msg_nenhum_dado string
  | Msg_erro_fatal py_error
  | Msg_concluido
  | Msg_nenhuma_categoria
  | Msg_grafico_salvo string
  | Msg_grafico_nao_gerado string

datatype event = Pedido nat | Sleep int | Print msg

text \<open>
  What one request to the provider does: it raises an exception (kept as its message
  text, which is all the code inspects) or returns a table.
\<close>

datatype resposta = Levanta string | Devolve dataframe

text \<open>
  The environment of a run: the provider, as the response to the \<open>n\<close>-th request made
  for given terms, geolocation and time frame, and the longest duration
  \<^verbatim>\<open>time.sleep\<close> accepts.
\<close>

record ambiente =
  pytrends :: "string list \<Rightarrow> string \<Rightarrow> string \<Rightarrow> nat \<Rightarrow> resposta"
  sleep_max :: int

definition time_sleep :: "int \<Rightarrow> int \<Rightarrow> py_error option" where
  \<comment> \<open>\<^verbatim>\<open>time.sleep(secs)\<close> raises \<^verbatim>\<open>ValueError\<close> for a negative duration and
      \<^verbatim>\<open>OverflowError\<close> for one too large to represent\<close>
  "time_sleep smax secs =
     (if secs < 0 then Some ValueError
      else if smax < secs then Some OverflowError
      else None)"

section \<open>Fetcher: \<^verbatim>\<open>buscar_dados_trends\<close>\<close>

fun substring_of :: "string \<Rightarrow> string \<Rightarrow> bool" where
  \<comment> \<open>Python's \<^verbatim>\<open>sub in s\<close> on strings\<close>
  "substring_of sub [] = (sub = [])"
| "substring_of sub (c # cs) = (take (length sub) (c # cs) = sub \<or> substring_of sub cs)"

text \<open>
  The body of \<^verbatim>\<open>for attempt in range(retries)\<close>, over the attempts still to make.
  The result is what the call returns (\<open>Inr\<close>, with \<open>None\<close> for Python's \<^verbatim>\<open>None\<close>) or the
  exception that leaves it (\<open>Inl\<close>), with the trace of requests, messages and sleeps.
  The sleep happens inside the \<^verbatim>\<open>except\<close> block, so an exception of
  \<^verbatim>\<open>time.sleep\<close> is not caught.
\<close>

fun tentativas ::
  "int \<Rightarrow> (nat \<Rightarrow> resposta) \<Rightarrow> int \<Rightarrow> int \<Rightarrow> nat list
     \<Rightarrow> (py_error + dataframe option) \<times> event list" where
  "tentativas smax prov retries initial_delay [] = (Inr None, [])"
| "tentativas smax prov retries initial_delay (attempt # rest) =
     (case prov attempt of
        Devolve df \<Rightarrow>
          if df_empty df then (Inr None, [Pedido attempt])
          else (Inr (Some (drop_isPartial df)), [Pedido attempt])
      | Levanta e \<Rightarrow>
          if substring_of ''429'' e then
            (if int attempt < retries - 1 then
               (let delay = initial_delay * 2 ^ attempt in
                case time_sleep smax delay of
                  Some err \<Rightarrow> (Inl err, [Pedido attempt, Print (Msg_retry delay)])
                | None \<Rightarrow>
                    (case tentativas smax prov retries initial_delay rest of
                       (r, tr) \<Rightarrow>
                         (r, Pedido attempt # Print (Msg_retry delay) # Sleep delay # tr)))
             else (Inr None, [Pedido attempt, Print (Msg_erro_busca e)]))
          else (Inr None, [Pedido attempt, Print (Msg_erro_inesperado e)]))"

definition buscar_dados_trends ::
  "ambiente \<Rightarrow> string list \<Rightarrow> string \<Rightarrow> string \<Rightarrow> int \<Rightarrow> int
     \<Rightarrow> (py_error + dataframe option) \<times> event list" where
  "buscar_dados_trends env termos geo timeframe retries initial_delay =
     tentativas (sleep_max env) (pytrends env termos geo timeframe) retries initial_delay
       [0 ..< nat retries]"

definition rate_limited :: "resposta \<Rightarrow> bool" where
  "rate_limited r = (case r of Levanta e \<Rightarrow> substring_of ''429'' e | Devolve df \<Rightarrow> False)"

definition backoff :: "int \<Rightarrow> nat \<Rightarrow> nat \<Rightarrow> event list" where
  \<comment> \<open>the trace of the rate-limited attempts \<open>a, ..., k - 1\<close>, each followed by its sleep\<close>
  "backoff initial_delay a k =
     concat (map (\<lambda>j. [Pedido j, Print (Msg_retry (initial_delay * 2 ^ j)),
                        Sleep (initial_delay * 2 ^ j)]) [a ..< k])"

definition sleeps :: "event list \<Rightarrow> int list" where
  "sleeps tr = concat (map (\<lambda>ev. case ev of Sleep s \<Rightarrow> [s] | _ \<Rightarrow> []) tr)"

definition pedidos :: "event list \<Rightarrow> nat" where
  "pedidos tr = length (filter (\<lambda>ev. case ev of Pedido n \<Rightarrow> True | _ \<Rightarrow> False) tr)"

text \<open>Example providers and tables, for evaluating the fetcher on concrete runs.\<close>

definition exemplo_df :: dataframe where
  "exemplo_df = \<lparr>df_index = [(2025, 6, 1), (2025, 6, 8)],
                  df_columns = [(''rato'', [40, 55]), (''ratos'', [60, 80]),
                                (''isPartial'', [0, 1])]\<rparr>"

definition msg_429 :: string where
  "msg_429 = ''The request failed: Google returned a response with code 429''"

definition env_sempre_429 :: ambiente where
  \<comment> \<open>a provider that answers every request with the rate-limit error\<close>
  "env_sempre_429 = \<lparr>pytrends = (\<lambda>termos geo tf n. Levanta msg_429),
                      sleep_max = 9223372036\<rparr>"

definition env_terceira :: ambiente where
  \<comment> \<open>a provider that is rate-limited twice and answers the third request\<close>
  "env_terceira = \<lparr>pytrends = (\<lambda>termos geo tf n.
                        if n < 2 then Levanta msg_429 else Devolve exemplo_df),
                    sleep_max = 9223372036\<rparr>"

section \<open>Store: the table \<^verbatim>\<open>trends\<close>\<close>

text \<open>
  One row of the table. The date is stored as text; the primary key is
  \<^verbatim>\<open>(data, termo_busca, geolocalizacao, categoria)\<close>.
\<close>

record registro =
  data :: string
  termo_busca :: string
  interesse :: int
  geolocalizacao :: string
  categoria :: string

definition chave :: "registro \<Rightarrow> string \<times> string \<times> string \<times> string" where
  "chave r = (data r, termo_busca r, geolocalizacao r, categoria r)"

text \<open>
  The table is the list of its rows, oldest first. The files of the machine are a map from
  a database file name to the table \<^verbatim>\<open>trends\<close> it holds: \<open>None\<close> when the file has no
  such table (\<^verbatim>\<open>sqlite3.connect\<close> opens a missing file as an empty database).
\<close>

type_synonym tabela = "registro list"

type_synonym arquivos = "string \<rightharpoonup> tabela"

definition iniciar_banco :: "string \<Rightarrow> arquivos \<Rightarrow> arquivos \<times> event list" where
  \<comment> \<open>\<^verbatim>\<open>CREATE TABLE IF NOT EXISTS trends\<close>\<close>
  "iniciar_banco db_file fs =
     ((case fs db_file of None \<Rightarrow> fs(db_file \<mapsto> []) | Some t \<Rightarrow> fs),
      [Print (Msg_banco_pronto db_file)])"

subsection \<open>Saving: \<^verbatim>\<open>salvar_dados_no_banco\<close>\<close>

definition digito :: "nat \<Rightarrow> char" where
  "digito n = ''0123456789'' ! (n mod 10)"

definition strftime_ymd :: "date \<Rightarrow> string" where
  \<comment> \<open>\<^verbatim>\<open>dt.strftime('%Y-%m-%d')\<close>, for the four-digit years a pandas timestamp has\<close>
  "strftime_ymd dt =
     (case dt of (y, m, d) \<Rightarrow>
        [digito (nat y div 1000), digito (nat y div 100), digito (nat y div 10), digito (nat y)]
        @ ''-'' @ [digito (nat m div 10), digito (nat m)]
        @ ''-'' @ [digito (nat d div 10), digito (nat d)])"

definition dados_para_salvar :: "dataframe \<Rightarrow> string \<Rightarrow> string \<Rightarrow> registro list" where
  \<comment> \<open>\<^verbatim>\<open>df.reset_index().melt(id_vars='date', ...)\<close> with the two constant columns:
      one row per term column and date, column by column\<close>
  "dados_para_salvar df cat geolocation =
     concat (map (\<lambda>(termo, valores).
               map (\<lambda>(dt, v). \<lparr>data = strftime_ymd dt, termo_busca = termo, interesse = v,
                                geolocalizacao = geolocation, categoria = cat\<rparr>)
                   (zip (df_index df) valores))
             (df_columns df))"

definition sqlite_int_ok :: "int \<Rightarrow> bool" where
  \<comment> \<open>an INTEGER of SQLite is a signed 64-bit value; binding a larger Python integer
      raises \<^verbatim>\<open>OverflowError\<close>\<close>
  "sqlite_int_ok v = (- (2 ^ 63) \<le> v \<and> v < 2 ^ 63)"

definition insert_or_replace :: "registro \<Rightarrow> tabela \<Rightarrow> tabela" where
  \<comment> \<open>\<^verbatim>\<open>INSERT OR REPLACE\<close>: the rows with the same primary key are deleted, the new
      row is added\<close>
  "insert_or_replace r t = filter (\<lambda>x. chave x \<noteq> chave r) t @ [r]"

text \<open>
  \<^verbatim>\<open>cursor.executemany\<close> runs the statement once per record, in order, inside the
  transaction the connection opened: it works on the transaction's view of the table and
  stops at the first record it cannot bind.
\<close>

fun executemany :: "tabela \<Rightarrow> registro list \<Rightarrow> py_error + tabela" where
  "executemany t [] = Inr t"
| "executemany t (r # rs) =
     (if sqlite_int_ok (interesse r) then executemany (insert_or_replace r t) rs
      else Inl OverflowError)"

text \<open>
  The whole save runs inside \<^verbatim>\<open>try\<close>; \<^verbatim>\<open>conn.commit()\<close> comes after
  \<^verbatim>\<open>executemany\<close>. When an exception skips the commit, the connection is dropped with
  its transaction open and the file keeps the table it had.
\<close>

definition salvar_dados_no_banco ::
  "dataframe \<Rightarrow> string \<Rightarrow> string \<Rightarrow> string \<Rightarrow> arquivos \<Rightarrow> arquivos \<times> event list" where
  "salvar_dados_no_banco df cat geolocation db_file fs =
     (let dados = dados_para_salvar df cat geolocation in
      case fs db_file of
        None \<Rightarrow> (fs, [Print (Msg_erro_salvar cat OperationalError)])
      | Some t \<Rightarrow>
          (case executemany t dados of
             Inl e \<Rightarrow> (fs, [Print (Msg_erro_salvar cat e)])
           | Inr t' \<Rightarrow> (fs(db_file \<mapsto> t'), [Print (Msg_salvos (length dados) cat)])))"

subsection \<open>Reading: \<^verbatim>\<open>listar_categorias\<close> and \<^verbatim>\<open>buscar_dados_categoria\<close>\<close>


text \<open>
  \<^verbatim>\<open>SELECT data, termo_busca, interesse FROM trends WHERE categoria = ? ORDER BY data\<close>.
  SQL leaves the order of rows with equal dates open; the model keeps them in table
  order, and no property below depends on it. On any error, the empty table.
\<close>

definition linha :: "registro \<Rightarrow> string \<times> string \<times> int" where
  \<comment> \<open>the three columns selected\<close>
  "linha r = (data r, termo_busca r, interesse r)"

definition buscar_dados_categoria ::
  "string \<Rightarrow> string \<Rightarrow> arquivos \<Rightarrow> (string \<times> string \<times> int) list" where
  "buscar_dados_categoria cat db_file fs =
     (case fs db_file of
        None \<Rightarrow> []
      | Some t \<Rightarrow> map linha (sort_key data (filter (\<lambda>r. categoria r = cat) t)))"

section \<open>Configuration of the entry points\<close>

definition coletor_DB_FILE :: string where
  \<comment> \<open>\<^verbatim>\<open>DB_FILE\<close> of \<^verbatim>\<open>coletor_trends.py\<close>\<close>
  "coletor_DB_FILE = ''tendencias_pragas_v4.db''"

definition visualizador_DB_FILE :: string where
  \<comment> \<open>\<^verbatim>\<open>DB_FILE\<close> of \<^verbatim>\<open>visualizador.py\<close>, which \<^verbatim>\<open>gerar_todos_graficos.py\<close> imports\<close>
  "visualizador_DB_FILE = ''tendencias_pragas.db''"

definition GEOLOCATION :: string where
  "GEOLOCATION = ''BR''"

definition TIMEFRAME :: string where
  "TIMEFRAME = ''2020-01-01 2025-06-27''"

text \<open>Example tables and files, for evaluating the store on concrete runs.\<close>

definition exemplo_ratos :: dataframe where
  "exemplo_ratos = \<lparr>df_index = [(2025, 6, 1), (2025, 6, 8)],
                     df_columns = [(''rato'', [40, 55]), (''ratos'', [60, 80])]\<rparr>"

definition exemplo_ratos_novo :: dataframe where
  \<comment> \<open>the same dates and terms, collected again with other values\<close>
  "exemplo_ratos_novo = \<lparr>df_index = [(2025, 6, 1), (2025, 6, 8)],
                          df_columns = [(''rato'', [41, 56]), (''ratos'', [61, 81])]\<rparr>"

definition exemplo_grande :: dataframe where
  \<comment> \<open>the second value does not fit an INTEGER of SQLite\<close>
  "exemplo_grande = \<lparr>df_index = [(2025, 6, 1), (2025, 6, 8)],
                      df_columns = [(''rato'', [40, 9223372036854775808])]\<rparr>"

definition registro_antigo :: registro where
  "registro_antigo = \<lparr>data = ''2025-05-25'', termo_busca = ''rato'', interesse = 30,
                       geolocalizacao = ''BR'', categoria = ''Ratos''\<rparr>"

definition arquivos_novos :: arquivos where
  \<comment> \<open>the files after \<^verbatim>\<open>iniciar_banco\<close> on a machine without the database\<close>
  "arquivos_novos = [coletor_DB_FILE \<mapsto> []]"

definition arquivos_antigos :: arquivos where
  \<comment> \<open>the files after an earlier collection\<close>
  "arquivos_antigos = [coletor_DB_FILE \<mapsto> [registro_antigo]]"

definition arquivos_coletados :: arquivos where
  \<comment> \<open>the files after a first collection of the example table on a fresh database\<close>
  "arquivos_coletados =
     fst (salvar_dados_no_banco exemplo_ratos ''Ratos'' ''BR'' coletor_DB_FILE arquivos_novos)"

section \<open>Properties of the fetcher\<close>

lemma tentativas_skip:
  assumes "\<forall>j. a \<le> j \<and> j < k \<longrightarrow>
             rate_limited (prov j) \<and> time_sleep smax (d * 2 ^ j) = None"
    and "a \<le> k" and "k < n" and "int n \<le> retries"
  shows "tentativas smax prov retries d [a ..< n] =
           (fst (tentativas smax prov retries d [k ..< n]),
            backoff d a k @ snd (tentativas smax prov retries d [k ..< n]))"
  using assms
proof (induction "k - a" arbitrary: a)
  case 0
  then show ?case by (simp add: backoff_def)
next
  case (Suc m)
  then have lt: "a < k" and an: "a < n" by auto
  have step: "[a ..< n] = a # [Suc a ..< n]" using an by (simp add: upt_conv_Cons)
  have rl: "rate_limited (prov a)" and sl: "time_sleep smax (d * 2 ^ a) = None"
    using Suc.prems(1) lt by auto
  obtain e where e: "prov a = Levanta e" "substring_of ''429'' e"
    using rl by (auto simp: rate_limited_def split: resposta.splits)
  have small: "int a < retries - 1" using lt Suc.prems by linarith
  have IH: "tentativas smax prov retries d [Suc a ..< n] =
           (fst (tentativas smax prov retries d [k ..< n]),
            backoff d (Suc a) k @ snd (tentativas smax prov retries d [k ..< n]))"
    using Suc.hyps(1)[of "Suc a"] Suc.hyps(2) Suc.prems lt by auto
  have bo: "backoff d a k =
      Pedido a # Print (Msg_retry (d * 2 ^ a)) # Sleep (d * 2 ^ a) # backoff d (Suc a) k"
    using lt by (simp add: backoff_def upt_conv_Cons)
  show ?case
    unfolding step using e small sl IH bo by (simp add: Let_def)
qed

lemma tentativas_all_limited:
  assumes "\<forall>j. a \<le> j \<and> j < n \<longrightarrow> rate_limited (prov j)"
    and "\<forall>j. a \<le> j \<and> int j < retries - 1 \<longrightarrow> time_sleep smax (d * 2 ^ j) = None"
    and "a < n" and "int n = retries"
  shows "fst (tentativas smax prov retries d [a ..< n]) = Inr None \<and>
         pedidos (snd (tentativas smax prov retries d [a ..< n])) = n - a \<and>
         sleeps (snd (tentativas smax prov retries d [a ..< n])) =
           map (\<lambda>j. d * 2 ^ j) [a ..< n - 1]"
  using assms
proof (induction "n - a" arbitrary: a)
  case 0
  then show ?case by simp
next
  case (Suc m)
  have step: "[a ..< n] = a # [Suc a ..< n]" using Suc.prems by (simp add: upt_conv_Cons)
  have "rate_limited (prov a)" using Suc.prems(1,3) by simp
  then obtain e where e: "prov a = Levanta e" "substring_of ''429'' e"
    by (cases "prov a") (simp_all add: rate_limited_def)
  show ?case
  proof (cases "Suc a = n")
    case True
    then have "\<not> int a < retries - 1" using Suc.prems by linarith
    then show ?thesis
      unfolding step using e True by (simp add: pedidos_def sleeps_def)
  next
    case False
    then have lt: "Suc a < n" using Suc.prems by linarith
    then have small: "int a < retries - 1" using Suc.prems by linarith
    have sl: "time_sleep smax (d * 2 ^ a) = None" using Suc.prems(2) small by simp
    have IH: "fst (tentativas smax prov retries d [Suc a ..< n]) = Inr None \<and>
         pedidos (snd (tentativas smax prov retries d [Suc a ..< n])) = n - Suc a \<and>
         sleeps (snd (tentativas smax prov retries d [Suc a ..< n])) =
           map (\<lambda>j. d * 2 ^ j) [Suc a ..< n - 1]"
      using Suc.hyps(1)[of "Suc a"] Suc.hyps(2) Suc.prems lt by auto
    have up: "[a ..< n - 1] = a # [Suc a ..< n - 1]" using lt by (simp add: upt_conv_Cons)
    show ?thesis
      unfolding step up using e small sl IH lt
      by (auto simp add: Let_def pedidos_def sleeps_def split: prod.splits)
  qed
qed

lemma sleeps_backoff: "sleeps (backoff d a k) = map (\<lambda>j. d * 2 ^ j) [a ..< k]"
  by (induction k) (simp_all add: sleeps_def backoff_def)

lemma pedidos_backoff: "pedidos (backoff d a k) = k - a"
  by (induction k) (simp_all add: pedidos_def backoff_def Suc_diff_le)

lemma sleeps_append: "sleeps (xs @ ys) = sleeps xs @ sleeps ys"
  by (simp add: sleeps_def)

text \<open>
  C2. With \<open>retries\<close> attempts allowed, if the provider answers the attempts \<open>0, ..., k - 1\<close>
  with a rate-limit error and attempt \<open>k < retries\<close> with a non-empty table, and the
  delays asked for are durations \<^verbatim>\<open>time.sleep\<close> accepts, then the call returns that
  table (without its \<^verbatim>\<open>isPartial\<close> column) and sleeps exactly \<open>k\<close> times, between the
  attempts, the \<open>j\<close>-th sleep (from 0) lasting \<open>initial_delay * 2 ^ j\<close>. For
  \<open>retries = 3\<close> and \<open>k = 2\<close>: errors on the first and second attempts, success on the
  third, two sleeps of \<open>initial_delay * 1\<close> and \<open>initial_delay * 2\<close>.
\<close>

theorem buscar_dados_trends_backoff:
  assumes "int k < retries"
    and "\<forall>j<k. rate_limited (pytrends env termos geo tf j)"
    and "\<forall>j<k. time_sleep (sleep_max env) (initial_delay * 2 ^ j) = None"
    and "pytrends env termos geo tf k = Devolve df" and "\<not> df_empty df"
  shows "buscar_dados_trends env termos geo tf retries initial_delay =
           (Inr (Some (drop_isPartial df)), backoff initial_delay 0 k @ [Pedido k]) \<and>
         sleeps (snd (buscar_dados_trends env termos geo tf retries initial_delay)) =
           map (\<lambda>j. initial_delay * 2 ^ j) [0 ..< k] \<and>
         (retries = 3 \<and> k = 2 \<longrightarrow>
            snd (buscar_dados_trends env termos geo tf retries initial_delay) =
              [Pedido 0, Print (Msg_retry (initial_delay * 1)), Sleep (initial_delay * 1),
               Pedido 1, Print (Msg_retry (initial_delay * 2)), Sleep (initial_delay * 2),
               Pedido 2])"
proof -
  let ?n = "nat retries"
  let ?prov = "pytrends env termos geo tf"
  have kn: "k < ?n" and n: "int ?n \<le> retries" using assms(1) by auto
  have skip: "tentativas (sleep_max env) ?prov retries initial_delay [0 ..< ?n] =
           (fst (tentativas (sleep_max env) ?prov retries initial_delay [k ..< ?n]),
            backoff initial_delay 0 k @
              snd (tentativas (sleep_max env) ?prov retries initial_delay [k ..< ?n]))"
    by (rule tentativas_skip) (use assms kn n in auto)
  have at_k: "tentativas (sleep_max env) ?prov retries initial_delay [k ..< ?n] =
           (Inr (Some (drop_isPartial df)), [Pedido k])"
    using kn assms(4,5) by (simp add: upt_conv_Cons)
  have res: "buscar_dados_trends env termos geo tf retries initial_delay =
           (Inr (Some (drop_isPartial df)), backoff initial_delay 0 k @ [Pedido k])"
    unfolding buscar_dados_trends_def skip at_k by simp
  have sl: "sleeps (backoff initial_delay 0 k @ [Pedido k]) =
           map (\<lambda>j. initial_delay * 2 ^ j) [0 ..< k]"
    by (simp add: sleeps_append sleeps_backoff) (simp add: sleeps_def)
  have two: "backoff initial_delay 0 2 =
      [Pedido 0, Print (Msg_retry (initial_delay * 1)), Sleep (initial_delay * 1),
       Pedido 1, Print (Msg_retry (initial_delay * 2)), Sleep (initial_delay * 2)]"
    by (simp add: backoff_def upt_conv_Cons numeral_2_eq_2)
  show ?thesis using res sl two by auto
qed

theorem buscar_dados_trends_backoff_witness:
  "buscar_dados_trends env_terceira [''rato'', ''ratos''] ''BR'' ''2020-01-01 2025-06-27'' 3 10 =
     (Inr (Some \<lparr>df_index = [(2025, 6, 1), (2025, 6, 8)],
                  df_columns = [(''rato'', [40, 55]), (''ratos'', [60, 80])]\<rparr>),
      [Pedido 0, Print (Msg_retry 10), Sleep 10,
       Pedido 1, Print (Msg_retry 20), Sleep 20, Pedido 2]) \<and>
   sleeps (snd (buscar_dados_trends env_terceira [''rato'', ''ratos''] ''BR''
                  ''2020-01-01 2025-06-27'' 3 10)) = [10, 20]"
proof -
  have lt2: "\<And>j::nat. j < 2 \<Longrightarrow> j = 0 \<or> j = 1" by auto
  have lim: "substring_of ''429'' msg_429" by (simp add: msg_429_def)
  have h1: "(2::int) < 3" by simp
  have h2: "\<forall>j<2. rate_limited
              (pytrends env_terceira [''rato'', ''ratos''] ''BR'' ''2020-01-01 2025-06-27'' j)"
    using lim by (simp add: env_terceira_def rate_limited_def)
  have h3: "\<forall>j<2. time_sleep (sleep_max env_terceira) (10 * 2 ^ j) = None"
  proof (intro allI impI)
    fix j :: nat
    assume "j < 2"
    then have "j = 0 \<or> j = 1" by (rule lt2)
    then show "time_sleep (sleep_max env_terceira) (10 * 2 ^ j) = None"
      by (auto simp: env_terceira_def time_sleep_def)
  qed
  have h4: "pytrends env_terceira [''rato'', ''ratos''] ''BR'' ''2020-01-01 2025-06-27'' 2 =
              Devolve exemplo_df"
    by (simp add: env_terceira_def)
  have h5: "\<not> df_empty exemplo_df" by (simp add: df_empty_def exemplo_df_def)
  have dp: "drop_isPartial exemplo_df =
      \<lparr>df_index = [(2025, 6, 1), (2025, 6, 8)],
       df_columns = [(''rato'', [40, 55]), (''ratos'', [60, 80])]\<rparr>"
    by (simp add: drop_isPartial_def exemplo_df_def)
  have up: "[0 ..< 2] = [0, 1::nat]" by (simp add: upt_conv_Cons numeral_2_eq_2)
  show ?thesis
    using buscar_dados_trends_backoff [where k = 2 and retries = 3, OF _ h2 h3 h4 h5] dp up
    by (auto simp: backoff_def sleeps_def)
qed

text \<open>
  C7 as stated fails: a negative \<open>initial_delay\<close> makes \<^verbatim>\<open>time.sleep\<close> raise inside the
  \<^verbatim>\<open>except\<close> block of the first rate-limited attempt, and the exception leaves the call.
\<close>

theorem buscar_dados_trends_raises_counterexample:
  "buscar_dados_trends env_sempre_429 [''rato'', ''ratos''] ''BR'' ''2020-01-01 2025-06-27'' 3 (-1) =
     (Inl ValueError, [Pedido 0, Print (Msg_retry (-1))])"
proof -
  have lim: "substring_of ''429'' msg_429" by (simp add: msg_429_def)
  have up: "[0 ..< 3] = [0, 1, 2::nat]" by (simp add: upt_conv_Cons numeral_3_eq_3)
  show ?thesis
    using lim by (simp add: buscar_dados_trends_def env_sempre_429_def up time_sleep_def)
qed

text \<open>
  C7, amended. Whenever every delay the backoff can ask for (\<open>initial_delay * 2 ^ j\<close> for
  \<open>j < retries - 1\<close>) is a duration \<^verbatim>\<open>time.sleep\<close> accepts, the call never raises:
  \<^item> it returns a value, never an exception;
  \<^item> when the first attempt that is not rate-limited returns a table, the call stops at
    that attempt and returns the table (without \<^verbatim>\<open>isPartial\<close>), or no data if the table
    is empty;
  \<^item> when that attempt raises any other error, the call stops there and returns no data;
  \<^item> when all \<open>retries\<close> attempts are rate-limited, it returns no data after exactly
    \<open>retries\<close> requests and \<open>retries - 1\<close> sleeps.
\<close>

theorem buscar_dados_trends_no_raise:
  assumes ok: "\<forall>j. int j < retries - 1 \<longrightarrow>
                 time_sleep (sleep_max env) (initial_delay * 2 ^ j) = None"
  shows "(\<exists>r tr. buscar_dados_trends env termos geo tf retries initial_delay = (Inr r, tr)) \<and>
    (\<forall>k df. int k < retries \<and> (\<forall>j<k. rate_limited (pytrends env termos geo tf j)) \<and>
        pytrends env termos geo tf k = Devolve df \<longrightarrow>
        buscar_dados_trends env termos geo tf retries initial_delay =
          (Inr (if df_empty df then None else Some (drop_isPartial df)),
           backoff initial_delay 0 k @ [Pedido k])) \<and>
    (\<forall>k e. int k < retries \<and> (\<forall>j<k. rate_limited (pytrends env termos geo tf j)) \<and>
        pytrends env termos geo tf k = Levanta e \<and> \<not> substring_of ''429'' e \<longrightarrow>
        buscar_dados_trends env termos geo tf retries initial_delay =
          (Inr None, backoff initial_delay 0 k @ [Pedido k, Print (Msg_erro_inesperado e)])) \<and>
    ((\<forall>j. int j < retries \<longrightarrow> rate_limited (pytrends env termos geo tf j)) \<longrightarrow>
        fst (buscar_dados_trends env termos geo tf retries initial_delay) = Inr None \<and>
        pedidos (snd (buscar_dados_trends env termos geo tf retries initial_delay)) = nat retries \<and>
        sleeps (snd (buscar_dados_trends env termos geo tf retries initial_delay)) =
          map (\<lambda>j. initial_delay * 2 ^ j) [0 ..< nat retries - 1])"
proof -
  let ?n = "nat retries"
  let ?prov = "pytrends env termos geo tf"
  let ?T = "tentativas (sleep_max env) ?prov retries initial_delay"
  have B: "buscar_dados_trends env termos geo tf retries initial_delay = ?T [0 ..< ?n]"
    by (simp add: buscar_dados_trends_def)
  have skip: "?T [0 ..< ?n] = (fst (?T [k ..< ?n]), backoff initial_delay 0 k @ snd (?T [k ..< ?n]))"
    if "int k < retries" "\<forall>j<k. rate_limited (?prov j)" for k
  proof (rule tentativas_skip)
    show "\<forall>j. 0 \<le> j \<and> j < k \<longrightarrow>
            rate_limited (?prov j) \<and> time_sleep (sleep_max env) (initial_delay * 2 ^ j) = None"
      using that ok by auto
  qed (use that in auto)
  have ret: "?T [0 ..< ?n] =
          (Inr (if df_empty df then None else Some (drop_isPartial df)),
           backoff initial_delay 0 k @ [Pedido k])"
    if "int k < retries" "\<forall>j<k. rate_limited (?prov j)" "?prov k = Devolve df" for k df
  proof -
    have "k < ?n" using that(1) by auto
    then have "?T [k ..< ?n] =
       (Inr (if df_empty df then None else Some (drop_isPartial df)), [Pedido k])"
      using that(3) by (simp add: upt_conv_Cons)
    then show ?thesis using skip[OF that(1,2)] by simp
  qed
  have other: "?T [0 ..< ?n] =
          (Inr None, backoff initial_delay 0 k @ [Pedido k, Print (Msg_erro_inesperado e)])"
    if "int k < retries" "\<forall>j<k. rate_limited (?prov j)" "?prov k = Levanta e"
       "\<not> substring_of ''429'' e" for k e
  proof -
    have "k < ?n" using that(1) by auto
    then have "?T [k ..< ?n] = (Inr None, [Pedido k, Print (Msg_erro_inesperado e)])"
      using that(3,4) by (simp add: upt_conv_Cons)
    then show ?thesis using skip[OF that(1,2)] by simp
  qed
  have all: "fst (?T [0 ..< ?n]) = Inr None \<and> pedidos (snd (?T [0 ..< ?n])) = ?n \<and>
        sleeps (snd (?T [0 ..< ?n])) = map (\<lambda>j. initial_delay * 2 ^ j) [0 ..< ?n - 1]"
    if lim: "\<forall>j. int j < retries \<longrightarrow> rate_limited (?prov j)"
  proof (cases "0 < ?n")
    case False
    then show ?thesis by (simp add: pedidos_def sleeps_def)
  next
    case True
    have "fst (?T [0 ..< ?n]) = Inr None \<and> pedidos (snd (?T [0 ..< ?n])) = ?n - 0 \<and>
        sleeps (snd (?T [0 ..< ?n])) = map (\<lambda>j. initial_delay * 2 ^ j) [0 ..< ?n - 1]"
    proof (rule tentativas_all_limited)
      show "\<forall>j. 0 \<le> j \<and> j < ?n \<longrightarrow> rate_limited (?prov j)" using lim by auto
      show "\<forall>j. 0 \<le> j \<and> int j < retries - 1 \<longrightarrow>
              time_sleep (sleep_max env) (initial_delay * 2 ^ j) = None"
        using ok by auto
      show "0 < ?n" by (rule True)
      show "int ?n = retries" using True by auto
    qed
    then show ?thesis by simp
  qed
  have total: "\<exists>r tr. ?T [0 ..< ?n] = (Inr r, tr)"
  proof (cases "\<forall>j. int j < retries \<longrightarrow> rate_limited (?prov j)")
    case True
    from all[OF True] show ?thesis by (cases "?T [0 ..< ?n]") auto
  next
    case False
    then have ex: "\<exists>k. int k < retries \<and> \<not> rate_limited (?prov k)" by auto
    define k where "k = (LEAST k. int k < retries \<and> \<not> rate_limited (?prov k))"
    have k: "int k < retries \<and> \<not> rate_limited (?prov k)"
      unfolding k_def using ex by (rule LeastI_ex)
    have before: "\<forall>j<k. rate_limited (?prov j)"
    proof (intro allI impI)
      fix j assume jk: "j < k"
      then have "\<not> (int j < retries \<and> \<not> rate_limited (?prov j))"
        unfolding k_def by (rule not_less_Least)
      moreover have "int j < retries" using jk k by linarith
      ultimately show "rate_limited (?prov j)" by simp
    qed
    show ?thesis
    proof (cases "?prov k")
      case (Devolve df)
      from ret[OF _ before Devolve] k show ?thesis by simp
    next
      case (Levanta e)
      then have "\<not> substring_of ''429'' e" using k by (simp add: rate_limited_def)
      from other[OF _ before Levanta this] k show ?thesis by simp
    qed
  qed
  show ?thesis
    unfolding B using total ret other all by blast
qed

theorem buscar_dados_trends_no_raise_witness:
  "fst (buscar_dados_trends env_sempre_429 [''rato'', ''ratos''] ''BR''
          ''2020-01-01 2025-06-27'' 3 10) = Inr None \<and>
   pedidos (snd (buscar_dados_trends env_sempre_429 [''rato'', ''ratos''] ''BR''
          ''2020-01-01 2025-06-27'' 3 10)) = 3 \<and>
   sleeps (snd (buscar_dados_trends env_sempre_429 [''rato'', ''ratos''] ''BR''
          ''2020-01-01 2025-06-27'' 3 10)) = [10, 20]"
proof -
  have lt2: "\<And>j::nat. int j < 3 - 1 \<Longrightarrow> j = 0 \<or> j = 1" by auto
  have h: "\<forall>j. int j < 3 - 1 \<longrightarrow>
             time_sleep (sleep_max env_sempre_429) (10 * 2 ^ j) = None"
  proof (intro allI impI)
    fix j :: nat
    assume "int j < 3 - 1"
    then have "j = 0 \<or> j = 1" by (rule lt2)
    then show "time_sleep (sleep_max env_sempre_429) (10 * 2 ^ j) = None"
      by (auto simp: env_sempre_429_def time_sleep_def)
  qed
  have lim: "\<forall>j. int j < 3 \<longrightarrow>
      rate_limited (pytrends env_sempre_429 [''rato'', ''ratos''] ''BR'' ''2020-01-01 2025-06-27'' j)"
    by (simp add: env_sempre_429_def rate_limited_def msg_429_def)
  have up: "[0 ..< 2] = [0, 1::nat]" by (simp add: upt_conv_Cons numeral_2_eq_2)
  show ?thesis
    using buscar_dados_trends_no_raise [OF h, of "[''rato'', ''ratos'']" "''BR''"
        "''2020-01-01 2025-06-27''"] lim h up
    by simp
qed

section \<open>Properties of the store\<close>

lemma executemany_ok:
  "\<forall>r\<in>set rs. sqlite_int_ok (interesse r) \<Longrightarrow>
     executemany t rs = Inr (fold insert_or_replace rs t)"
  by (induction rs arbitrary: t) simp_all

lemma executemany_fails:
  "\<exists>r\<in>set rs. \<not> sqlite_int_ok (interesse r) \<Longrightarrow> executemany t rs = Inl OverflowError"
  by (induction rs arbitrary: t) auto

lemma distinct_insert_or_replace:
  "distinct (map chave t) \<Longrightarrow> distinct (map chave (insert_or_replace r t))"
  by (auto simp: insert_or_replace_def distinct_map_filter)

lemma distinct_fold_insert_or_replace:
  "distinct (map chave t) \<Longrightarrow> distinct (map chave (fold insert_or_replace rs t))"
  by (induction rs arbitrary: t) (simp_all add: distinct_insert_or_replace)

lemma mset_insert_or_replace:
  "mset (insert_or_replace r t) = filter_mset (\<lambda>x. chave x \<noteq> chave r) (mset t) + {#r#}"
  by (simp add: insert_or_replace_def)

lemma mset_fold_insert_or_replace:
  "distinct (map chave rs) \<Longrightarrow>
     mset (fold insert_or_replace rs t) =
       mset rs + filter_mset (\<lambda>x. chave x \<notin> chave ` set rs) (mset t)"
proof (induction rs arbitrary: t)
  case Nil
  then show ?case by simp
next
  case (Cons r rs)
  then have notin: "chave r \<notin> chave ` set rs" and d: "distinct (map chave rs)" by auto
  have "mset (fold insert_or_replace (r # rs) t) =
      mset rs + filter_mset (\<lambda>x. chave x \<notin> chave ` set rs) (mset (insert_or_replace r t))"
    using Cons.IH[OF d] by simp
  also have "\<dots> = mset rs + ({#r#} +
      filter_mset (\<lambda>x. chave x \<notin> chave ` set rs) (filter_mset (\<lambda>x. chave x \<noteq> chave r) (mset t)))"
    using notin by (simp add: mset_insert_or_replace)
  also have "filter_mset (\<lambda>x. chave x \<notin> chave ` set rs) (filter_mset (\<lambda>x. chave x \<noteq> chave r) (mset t))
      = filter_mset (\<lambda>x. chave x \<notin> chave ` set (r # rs)) (mset t)"
    by (auto simp: filter_filter_mset intro: filter_mset_cong)
  finally show ?case by simp
qed

lemma categoria_dados_para_salvar:
  "r \<in> set (dados_para_salvar df cat geo) \<Longrightarrow> categoria r = cat \<and> geolocalizacao r = geo"
  by (auto simp: dados_para_salvar_def)


lemma salvar_ok:
  assumes "fs db_file = Some t"
    and "\<forall>r\<in>set (dados_para_salvar df cat geo). sqlite_int_ok (interesse r)"
  shows "salvar_dados_no_banco df cat geo db_file fs =
     (fs(db_file \<mapsto> fold insert_or_replace (dados_para_salvar df cat geo) t),
      [Print (Msg_salvos (length (dados_para_salvar df cat geo)) cat)])"
  using assms by (simp add: salvar_dados_no_banco_def executemany_ok Let_def)

lemma buscar_apos_salvar:
  assumes "fs db_file = Some t"
    and "\<forall>r\<in>set (dados_para_salvar df cat geo). sqlite_int_ok (interesse r)"
  shows "buscar_dados_categoria c db_file (fst (salvar_dados_no_banco df cat geo db_file fs)) =
     map linha (sort_key data (filter (\<lambda>r. categoria r = c)
        (fold insert_or_replace (dados_para_salvar df cat geo) t)))"
  using salvar_ok[where fs = fs and db_file = db_file, OF assms] by (simp add: buscar_dados_categoria_def)

text \<open>
  C5, amended. For a batch of records of one category with pairwise different keys and
  values the table can hold, saved into a file that has the table: reading the category
  back gives, sorted by date ascending, the saved records together with the records of
  that category already stored under other keys, each once. When the table held no
  record of that category, the result is exactly the saved records.
\<close>

theorem upsert_then_get_category:
  assumes tab: "fs db_file = Some t"
    and ok: "\<forall>r\<in>set (dados_para_salvar df cat geo). sqlite_int_ok (interesse r)"
    and dk: "distinct (map chave (dados_para_salvar df cat geo))"
  shows "mset (buscar_dados_categoria cat db_file
                 (fst (salvar_dados_no_banco df cat geo db_file fs))) =
           mset (map linha (dados_para_salvar df cat geo)) +
           mset (map linha (filter (\<lambda>x. categoria x = cat \<and>
                    chave x \<notin> chave ` set (dados_para_salvar df cat geo)) t)) \<and>
         sorted (map fst (buscar_dados_categoria cat db_file
                 (fst (salvar_dados_no_banco df cat geo db_file fs)))) \<and>
         ((\<forall>x\<in>set t. categoria x \<noteq> cat) \<longrightarrow>
            mset (buscar_dados_categoria cat db_file
                   (fst (salvar_dados_no_banco df cat geo db_file fs))) =
            mset (map linha (dados_para_salvar df cat geo)))"
proof -
  let ?lote = "dados_para_salvar df cat geo"
  let ?res = "buscar_dados_categoria cat db_file
                 (fst (salvar_dados_no_banco df cat geo db_file fs))"
  have res: "?res = map linha (sort_key data (filter (\<lambda>r. categoria r = cat)
        (fold insert_or_replace ?lote t)))"
    by (rule buscar_apos_salvar[where fs = fs and db_file = db_file, OF tab ok])
  have all_cat: "filter_mset (\<lambda>r. categoria r = cat) (mset ?lote) = mset ?lote"
    by (rule filter_mset_cong[where g = "\<lambda>r. True", simplified])
       (simp_all add: categoria_dados_para_salvar)
  have m: "mset ?res = image_mset linha (mset ?lote) +
      image_mset linha (filter_mset (\<lambda>x. categoria x = cat \<and> chave x \<notin> chave ` set ?lote) (mset t))"
    unfolding res
    by (simp add: mset_fold_insert_or_replace[OF dk] all_cat filter_filter_mset conj_commute)
  have s: "sorted (map fst ?res)"
    unfolding res by (simp add: linha_def comp_def)
  have fresh: "mset ?res = mset (map linha ?lote)" if "\<forall>x\<in>set t. categoria x \<noteq> cat"
  proof -
    have "filter_mset (\<lambda>x. categoria x = cat \<and> chave x \<notin> chave ` set ?lote) (mset t) = {#}"
      using that by auto
    then show ?thesis using m by simp
  qed
  show ?thesis using m s fresh by simp
qed

lemma lote_ratos:
  "dados_para_salvar exemplo_ratos ''Ratos'' ''BR'' =
    [\<lparr>data = ''2025-06-01'', termo_busca = ''rato'', interesse = 40,
         geolocalizacao = ''BR'', categoria = ''Ratos''\<rparr>,
     \<lparr>data = ''2025-06-08'', termo_busca = ''rato'', interesse = 55,
         geolocalizacao = ''BR'', categoria = ''Ratos''\<rparr>,
     \<lparr>data = ''2025-06-01'', termo_busca = ''ratos'', interesse = 60,
         geolocalizacao = ''BR'', categoria = ''Ratos''\<rparr>,
     \<lparr>data = ''2025-06-08'', termo_busca = ''ratos'', interesse = 80,
         geolocalizacao = ''BR'', categoria = ''Ratos''\<rparr>]"
  by (simp add: dados_para_salvar_def exemplo_ratos_def strftime_ymd_def digito_def)

text \<open>
  C5 as stated fails on a store that already holds a record of the category under another
  key: the record comes back with the saved ones.
\<close>

theorem upsert_then_get_category_counterexample:
  "buscar_dados_categoria ''Ratos'' coletor_DB_FILE
     (fst (salvar_dados_no_banco exemplo_ratos ''Ratos'' ''BR'' coletor_DB_FILE arquivos_antigos)) =
     [(''2025-05-25'', ''rato'', 30),
      (''2025-06-01'', ''rato'', 40), (''2025-06-01'', ''ratos'', 60),
      (''2025-06-08'', ''rato'', 55), (''2025-06-08'', ''ratos'', 80)] \<and>
   map linha (dados_para_salvar exemplo_ratos ''Ratos'' ''BR'') =
     [(''2025-06-01'', ''rato'', 40), (''2025-06-08'', ''rato'', 55),
      (''2025-06-01'', ''ratos'', 60), (''2025-06-08'', ''ratos'', 80)]"
  by (simp add: lote_ratos salvar_dados_no_banco_def arquivos_antigos_def registro_antigo_def
      sqlite_int_ok_def insert_or_replace_def chave_def buscar_dados_categoria_def linha_def)

theorem upsert_then_get_category_witness:
  "mset (buscar_dados_categoria ''Ratos'' coletor_DB_FILE
     (fst (salvar_dados_no_banco exemplo_ratos ''Ratos'' ''BR'' coletor_DB_FILE arquivos_novos))) =
   mset [(''2025-06-01'', ''rato'', 40), (''2025-06-08'', ''rato'', 55),
         (''2025-06-01'', ''ratos'', 60), (''2025-06-08'', ''ratos'', 80)] \<and>
   sorted (map fst (buscar_dados_categoria ''Ratos'' coletor_DB_FILE
     (fst (salvar_dados_no_banco exemplo_ratos ''Ratos'' ''BR'' coletor_DB_FILE arquivos_novos))))"
proof -
  have tab: "arquivos_novos coletor_DB_FILE = Some []" by (simp add: arquivos_novos_def)
  have ok: "\<forall>r\<in>set (dados_para_salvar exemplo_ratos ''Ratos'' ''BR''). sqlite_int_ok (interesse r)"
    by (simp add: lote_ratos sqlite_int_ok_def)
  have dk: "distinct (map chave (dados_para_salvar exemplo_ratos ''Ratos'' ''BR''))"
    by (simp add: lote_ratos chave_def)
  show ?thesis
    using upsert_then_get_category [where fs = arquivos_novos and db_file = coletor_DB_FILE, OF tab ok dk] by (simp add: lote_ratos linha_def)
qed

lemma length_filter_chaves:
  assumes "distinct (map chave t)" and "distinct (map chave rs)"
    and "chave ` set rs \<subseteq> chave ` set t"
  shows "length (filter (\<lambda>x. chave x \<in> chave ` set rs) t) = length rs"
proof -
  let ?f = "filter (\<lambda>x. chave x \<in> chave ` set rs) t"
  have d: "distinct (map chave ?f)" using assms(1) by (rule distinct_map_filter)
  have s: "set (map chave ?f) = chave ` set rs"
  proof
    show "set (map chave ?f) \<subseteq> chave ` set rs" by auto
    show "chave ` set rs \<subseteq> set (map chave ?f)"
    proof
      fix k assume k: "k \<in> chave ` set rs"
      then obtain x where x: "x \<in> set t" "chave x = k" using assms(3) by auto
      then have "x \<in> set ?f" using k by simp
      then have "chave x \<in> chave ` set ?f" by (rule imageI)
      then show "k \<in> set (map chave ?f)" using x(2) by simp
    qed
  qed
  have "length ?f = length (map chave ?f)" by simp
  also have "\<dots> = card (set (map chave ?f))" using distinct_card[OF d] by simp
  also have "\<dots> = card (set (map chave rs))" unfolding s by simp
  also have "\<dots> = length rs" using assms(2) distinct_card[of "map chave rs"] by simp
  finally show ?thesis .
qed

lemma length_fold_insert_or_replace:
  assumes "distinct (map chave t)" and "distinct (map chave rs)"
    and "chave ` set rs \<subseteq> chave ` set t"
  shows "length (filter P (fold insert_or_replace rs t)) =
         length (filter P rs) + length (filter (\<lambda>x. P x \<and> chave x \<notin> chave ` set rs) t)"
proof -
  have "length (filter P (fold insert_or_replace rs t)) =
        size (filter_mset P (mset (fold insert_or_replace rs t)))"
    by (metis mset_filter size_mset)
  also have "\<dots> = size (filter_mset P (mset rs)) +
        size (filter_mset P (filter_mset (\<lambda>x. chave x \<notin> chave ` set rs) (mset t)))"
    by (simp add: mset_fold_insert_or_replace[OF assms(2)])
  also have "\<dots> = length (filter P rs) +
        length (filter (\<lambda>x. P x \<and> chave x \<notin> chave ` set rs) t)"
    by (metis (mono_tags, lifting) filter_filter_mset filter_mset_cong mset_filter size_mset)
  finally show ?thesis .
qed

lemma set_fold_insert_or_replace:
  assumes "distinct (map chave rs)"
  shows "set (fold insert_or_replace rs t) = set rs \<union> {x \<in> set t. chave x \<notin> chave ` set rs}"
proof -
  have "set (fold insert_or_replace rs t) = set_mset (mset (fold insert_or_replace rs t))"
    by simp
  also have "\<dots> = set rs \<union> {x \<in> set t. chave x \<notin> chave ` set rs}"
    unfolding mset_fold_insert_or_replace[OF assms] by auto
  finally show ?thesis .
qed

lemma length_filter_split:
  "length (filter P xs) =
     length (filter (\<lambda>x. P x \<and> Q x) xs) + length (filter (\<lambda>x. P x \<and> \<not> Q x) xs)"
  by (induction xs) auto

text \<open>
  C6. The key \<^verbatim>\<open>(data, termo_busca, geolocalizacao, categoria)\<close> stays unique: saving a
  batch (pairwise different keys, values the table can hold) into a table whose keys are
  pairwise different leaves a table whose keys are pairwise different, which holds every
  saved record, and in which the row of each saved key carries the value just written.
  When every key of the batch was already present, nothing is duplicated: the table and
  the rows read back for the category keep their number.
\<close>

theorem upsert_overwrites:
  assumes tab: "fs db_file = Some t"
    and inv: "distinct (map chave t)"
    and ok: "\<forall>r\<in>set (dados_para_salvar df cat geo). sqlite_int_ok (interesse r)"
    and dk: "distinct (map chave (dados_para_salvar df cat geo))"
  shows "\<exists>t'. fst (salvar_dados_no_banco df cat geo db_file fs) db_file = Some t' \<and>
           distinct (map chave t') \<and>
           set (dados_para_salvar df cat geo) \<subseteq> set t' \<and>
           (\<forall>r\<in>set (dados_para_salvar df cat geo). \<forall>x\<in>set t'.
               chave x = chave r \<longrightarrow> interesse x = interesse r) \<and>
           (chave ` set (dados_para_salvar df cat geo) \<subseteq> chave ` set t \<longrightarrow>
              length t' = length t \<and>
              length (buscar_dados_categoria cat db_file
                        (fst (salvar_dados_no_banco df cat geo db_file fs))) =
              length (buscar_dados_categoria cat db_file fs))"
proof -
  let ?lote = "dados_para_salvar df cat geo"
  let ?t' = "fold insert_or_replace ?lote t"
  let ?K = "chave ` set ?lote"
  have sv: "fst (salvar_dados_no_banco df cat geo db_file fs) db_file = Some ?t'"
    using salvar_ok[where fs = fs and db_file = db_file, OF tab ok] by simp
  have d: "distinct (map chave ?t')" using inv by (rule distinct_fold_insert_or_replace)
  have st: "set ?t' = set ?lote \<union> {x \<in> set t. chave x \<notin> ?K}"
    by (rule set_fold_insert_or_replace[OF dk])
  have sub: "set ?lote \<subseteq> set ?t'" using st by auto
  have latest: "\<forall>r\<in>set ?lote. \<forall>x\<in>set ?t'. chave x = chave r \<longrightarrow> interesse x = interesse r"
  proof (intro ballI impI)
    fix r x
    assume r: "r \<in> set ?lote" and x: "x \<in> set ?t'" and k: "chave x = chave r"
    have "x \<in> set ?lote" using x k r st by auto
    then have "x = r" using r k dk by (meson distinct_map inj_onD)
    then show "interesse x = interesse r" by simp
  qed
  have count: "length ?t' = length t \<and>
      length (buscar_dados_categoria cat db_file
                (fst (salvar_dados_no_banco df cat geo db_file fs))) =
      length (buscar_dados_categoria cat db_file fs)"
    if present: "?K \<subseteq> chave ` set t"
  proof -
    have inK: "length (filter (\<lambda>x. chave x \<in> ?K) t) = length ?lote"
      by (rule length_filter_chaves[OF inv dk present])
    have "length ?t' = length (filter (\<lambda>x. True) ?t')" by simp
    also have "\<dots> = length (filter (\<lambda>x. True) ?lote) +
        length (filter (\<lambda>x. True \<and> chave x \<notin> ?K) t)"
      by (rule length_fold_insert_or_replace[OF inv dk present])
    also have "\<dots> = length (filter (\<lambda>x. True \<and> chave x \<in> ?K) t) +
        length (filter (\<lambda>x. True \<and> \<not> chave x \<in> ?K) t)"
      using inK by simp
    also have "\<dots> = length (filter (\<lambda>x. True) t)"
      by (rule length_filter_split[symmetric])
    finally have l1: "length ?t' = length t" by simp
    let ?P = "\<lambda>x. categoria x = cat"
    have catK: "(?P x \<and> chave x \<in> ?K) = (chave x \<in> ?K)" for x
    proof -
      have "categoria x = cat" if "chave x \<in> ?K"
      proof -
        from that obtain r where r: "r \<in> set ?lote" "chave x = chave r" by auto
        then have "categoria r = cat" using categoria_dados_para_salvar by blast
        then show ?thesis using r(2) by (simp add: chave_def)
      qed
      then show ?thesis by auto
    qed
    have all: "filter ?P ?lote = ?lote"
      using categoria_dados_para_salvar by (simp add: filter_id_conv)
    have "length (filter ?P ?t') = length (filter ?P ?lote) +
        length (filter (\<lambda>x. ?P x \<and> chave x \<notin> ?K) t)"
      by (rule length_fold_insert_or_replace[OF inv dk present])
    also have "\<dots> = length (filter (\<lambda>x. ?P x \<and> chave x \<in> ?K) t) +
        length (filter (\<lambda>x. ?P x \<and> \<not> chave x \<in> ?K) t)"
      using inK all by (simp add: catK)
    also have "\<dots> = length (filter ?P t)"
      by (rule length_filter_split[symmetric])
    finally have l2: "length (filter ?P ?t') = length (filter ?P t)" .
    have "length (buscar_dados_categoria cat db_file
                (fst (salvar_dados_no_banco df cat geo db_file fs))) = length (filter ?P ?t')"
      using buscar_apos_salvar[where fs = fs and db_file = db_file and c = cat, OF tab ok]
      by simp
    moreover have "length (buscar_dados_categoria cat db_file fs) = length (filter ?P t)"
      using tab by (simp add: buscar_dados_categoria_def)
    ultimately show ?thesis using l1 l2 by simp
  qed
  show ?thesis using sv d sub latest count by blast
qed

lemma lote_ratos_novo:
  "dados_para_salvar exemplo_ratos_novo ''Ratos'' ''BR'' =
    [\<lparr>data = ''2025-06-01'', termo_busca = ''rato'', interesse = 41,
         geolocalizacao = ''BR'', categoria = ''Ratos''\<rparr>,
     \<lparr>data = ''2025-06-08'', termo_busca = ''rato'', interesse = 56,
         geolocalizacao = ''BR'', categoria = ''Ratos''\<rparr>,
     \<lparr>data = ''2025-06-01'', termo_busca = ''ratos'', interesse = 61,
         geolocalizacao = ''BR'', categoria = ''Ratos''\<rparr>,
     \<lparr>data = ''2025-06-08'', termo_busca = ''ratos'', interesse = 81,
         geolocalizacao = ''BR'', categoria = ''Ratos''\<rparr>]"
  by (simp add: dados_para_salvar_def exemplo_ratos_novo_def strftime_ymd_def digito_def)

lemma arquivos_coletados_eq:
  "arquivos_coletados coletor_DB_FILE = Some (dados_para_salvar exemplo_ratos ''Ratos'' ''BR'')"
  by (simp add: arquivos_coletados_def lote_ratos salvar_dados_no_banco_def arquivos_novos_def
      sqlite_int_ok_def insert_or_replace_def chave_def)

theorem upsert_overwrites_witness:
  "length (buscar_dados_categoria ''Ratos'' coletor_DB_FILE
     (fst (salvar_dados_no_banco exemplo_ratos_novo ''Ratos'' ''BR'' coletor_DB_FILE
            arquivos_coletados))) =
   length (buscar_dados_categoria ''Ratos'' coletor_DB_FILE arquivos_coletados) \<and>
   buscar_dados_categoria ''Ratos'' coletor_DB_FILE arquivos_coletados =
     [(''2025-06-01'', ''rato'', 40), (''2025-06-01'', ''ratos'', 60),
      (''2025-06-08'', ''rato'', 55), (''2025-06-08'', ''ratos'', 80)] \<and>
   buscar_dados_categoria ''Ratos'' coletor_DB_FILE
     (fst (salvar_dados_no_banco exemplo_ratos_novo ''Ratos'' ''BR'' coletor_DB_FILE
            arquivos_coletados)) =
     [(''2025-06-01'', ''rato'', 41), (''2025-06-01'', ''ratos'', 61),
      (''2025-06-08'', ''rato'', 56), (''2025-06-08'', ''ratos'', 81)]"
proof -
  let ?t = "dados_para_salvar exemplo_ratos ''Ratos'' ''BR''"
  let ?lote = "dados_para_salvar exemplo_ratos_novo ''Ratos'' ''BR''"
  have inv: "distinct (map chave ?t)" by (simp add: lote_ratos chave_def)
  have ok: "\<forall>r\<in>set ?lote. sqlite_int_ok (interesse r)"
    by (simp add: lote_ratos_novo sqlite_int_ok_def)
  have dk: "distinct (map chave ?lote)" by (simp add: lote_ratos_novo chave_def)
  have present: "chave ` set ?lote \<subseteq> chave ` set ?t"
    by (simp add: lote_ratos lote_ratos_novo chave_def)
  have before: "buscar_dados_categoria ''Ratos'' coletor_DB_FILE arquivos_coletados =
     [(''2025-06-01'', ''rato'', 40), (''2025-06-01'', ''ratos'', 60),
      (''2025-06-08'', ''rato'', 55), (''2025-06-08'', ''ratos'', 80)]"
    by (simp add: buscar_dados_categoria_def arquivos_coletados_eq lote_ratos linha_def)
  have after: "buscar_dados_categoria ''Ratos'' coletor_DB_FILE
     (fst (salvar_dados_no_banco exemplo_ratos_novo ''Ratos'' ''BR'' coletor_DB_FILE
            arquivos_coletados)) =
     [(''2025-06-01'', ''rato'', 41), (''2025-06-01'', ''ratos'', 61),
      (''2025-06-08'', ''rato'', 56), (''2025-06-08'', ''ratos'', 81)]"
    by (simp add: buscar_dados_categoria_def salvar_dados_no_banco_def arquivos_coletados_eq
        lote_ratos lote_ratos_novo linha_def sqlite_int_ok_def insert_or_replace_def chave_def)
  show ?thesis
    using upsert_overwrites [where fs = arquivos_coletados and db_file = coletor_DB_FILE,
        OF arquivos_coletados_eq inv ok dk] present before after
    by auto
qed

text \<open>
  C8. A save is all or nothing. When any part of it fails (the file has no table, or some
  record of the batch cannot be bound, whatever was executed before it), the call
  returns, the files are exactly as before and the error is printed; otherwise the whole
  batch is committed.
\<close>

theorem salvar_dados_no_banco_atomic:
  "(fs db_file = None \<or>
      (\<exists>r\<in>set (dados_para_salvar df cat geo). \<not> sqlite_int_ok (interesse r)) \<longrightarrow>
      (\<exists>e. salvar_dados_no_banco df cat geo db_file fs =
              (fs, [Print (Msg_erro_salvar cat e)]))) \<and>
   (\<forall>t. fs db_file = Some t \<and>
      (\<forall>r\<in>set (dados_para_salvar df cat geo). sqlite_int_ok (interesse r)) \<longrightarrow>
      salvar_dados_no_banco df cat geo db_file fs =
        (fs(db_file \<mapsto> fold insert_or_replace (dados_para_salvar df cat geo) t),
         [Print (Msg_salvos (length (dados_para_salvar df cat geo)) cat)]))"
proof (intro conjI impI allI)
  assume f: "fs db_file = None \<or>
      (\<exists>r\<in>set (dados_para_salvar df cat geo). \<not> sqlite_int_ok (interesse r))"
  show "\<exists>e. salvar_dados_no_banco df cat geo db_file fs =
              (fs, [Print (Msg_erro_salvar cat e)])"
  proof (cases "fs db_file")
    case None
    then show ?thesis by (simp add: salvar_dados_no_banco_def)
  next
    case (Some t)
    then have "\<exists>r\<in>set (dados_para_salvar df cat geo). \<not> sqlite_int_ok (interesse r)"
      using f by simp
    then have "executemany t (dados_para_salvar df cat geo) = Inl OverflowError"
      by (rule executemany_fails)
    then show ?thesis using Some by (simp add: salvar_dados_no_banco_def)
  qed
next
  fix t
  assume "fs db_file = Some t \<and>
      (\<forall>r\<in>set (dados_para_salvar df cat geo). sqlite_int_ok (interesse r))"
  then show "salvar_dados_no_banco df cat geo db_file fs =
        (fs(db_file \<mapsto> fold insert_or_replace (dados_para_salvar df cat geo) t),
         [Print (Msg_salvos (length (dados_para_salvar df cat geo)) cat)])"
    using salvar_ok[where fs = fs and db_file = db_file] by blast
qed

theorem salvar_dados_no_banco_atomic_witness:
  "salvar_dados_no_banco exemplo_grande ''Ratos'' ''BR'' coletor_DB_FILE arquivos_antigos =
     (arquivos_antigos, [Print (Msg_erro_salvar ''Ratos'' OverflowError)]) \<and>
   map interesse (dados_para_salvar exemplo_grande ''Ratos'' ''BR'') = [40, 9223372036854775808] \<and>
   sqlite_int_ok 40 \<and>
   executemany [registro_antigo] (dados_para_salvar exemplo_grande ''Ratos'' ''BR'') =
     Inl OverflowError"
proof -
  have lote: "dados_para_salvar exemplo_grande ''Ratos'' ''BR'' =
    [\<lparr>data = ''2025-06-01'', termo_busca = ''rato'', interesse = 40,
         geolocalizacao = ''BR'', categoria = ''Ratos''\<rparr>,
     \<lparr>data = ''2025-06-08'', termo_busca = ''rato'', interesse = 9223372036854775808,
         geolocalizacao = ''BR'', categoria = ''Ratos''\<rparr>]"
    by (simp add: dados_para_salvar_def exemplo_grande_def strftime_ymd_def digito_def)
  have bad: "arquivos_antigos coletor_DB_FILE = None \<or>
    (\<exists>r\<in>set (dados_para_salvar exemplo_grande ''Ratos'' ''BR''). \<not> sqlite_int_ok (interesse r))"
    by (simp add: lote sqlite_int_ok_def)
  have ex: "executemany [registro_antigo] (dados_para_salvar exemplo_grande ''Ratos'' ''BR'') =
     Inl OverflowError"
    by (simp add: lote sqlite_int_ok_def)
  have "\<exists>e. salvar_dados_no_banco exemplo_grande ''Ratos'' ''BR'' coletor_DB_FILE
          arquivos_antigos = (arquivos_antigos, [Print (Msg_erro_salvar ''Ratos'' e)])"
    using salvar_dados_no_banco_atomic [of arquivos_antigos coletor_DB_FILE exemplo_grande
        "''Ratos''" "''BR''"] bad by blast
  then obtain e where e: "salvar_dados_no_banco exemplo_grande ''Ratos'' ''BR'' coletor_DB_FILE
          arquivos_antigos = (arquivos_antigos, [Print (Msg_erro_salvar ''Ratos'' e)])" ..
  have "snd (salvar_dados_no_banco exemplo_grande ''Ratos'' ''BR'' coletor_DB_FILE
          arquivos_antigos) = [Print (Msg_erro_salvar ''Ratos'' OverflowError)]"
    using ex by (simp add: salvar_dados_no_banco_def arquivos_antigos_def)
  then have "e = OverflowError" using e by simp
  then show ?thesis using e ex lote by (simp add: sqlite_int_ok_def)
qed

end
